theory Spec2Isabelle
  imports Main "HOL-Library.AList"
begin

section \<open>Strings and exceptions\<close>

text \<open>
  A Python \<open>str\<close> is a sequence of Unicode code points, so \<open>len\<close> is \<open>length\<close>.
  ASCII literals of the source are written with \<open>ustr\<close>; the Korean literals are
  given by their code points.
\<close>

type_synonym pystr = "nat list"

definition ustr :: "string \<Rightarrow> pystr" where
  "ustr s = map of_char s"

text \<open>
  The exceptions the program raises or catches. \<open>TimeoutError\<close> is the one
  \<open>wait_for_operation\<close> raises itself; \<open>Exception\<close> stands for any other exception
  coming out of a library or remote call, with the text \<open>str(e)\<close> gives.
\<close>

datatype exn = TimeoutError pystr | Exception pystr

fun str_exn :: "exn \<Rightarrow> pystr" where
  "str_exn (TimeoutError msg) = msg"
| "str_exn (Exception msg) = msg"

section \<open>Local file-list ledger (store\_config.json)\<close>

text \<open>
  The dictionary kept in \<open>CONFIG_FILE\<close> maps a store id to its list of display names.
  A Python \<open>dict\<close> keeps insertion order, so it is a list of pairs: \<open>config[k] = v\<close>
  replaces the value of an existing key in place or appends a new pair, \<open>del\<close>
  removes the pair, \<open>config.get\<close> looks the key up.

  The file is written by \<open>json.dump\<close> with \<open>ensure_ascii=False\<close> through a file
  opened in UTF-8: every character is written as itself. UTF-8 has no encoding for a
  surrogate code point (\<open>0xD800\<close> to \<open>0xDFFF\<close>), which a Python \<open>str\<close> may hold;
  writing such a string raises \<open>UnicodeEncodeError\<close>.
\<close>

definition encodable :: "pystr \<Rightarrow> bool" where
  "encodable s = list_all (\<lambda>c. c < 0xD800 \<or> 0xDFFF < c) s"

type_synonym config = "(pystr \<times> pystr list) list"

definition encodable_config :: "config \<Rightarrow> bool" where
  "encodable_config config = list_all (\<lambda>(k, v). encodable k \<and> list_all encodable v) config"

text \<open>
  The file is absent (\<open>os.path.exists\<close> is false), or holds a JSON object that
  \<open>json.dump\<close> wrote, or holds something \<open>json.load\<close> raises on. What
  \<open>json.dump\<close> wrote is a dictionary whose strings are all encodable; \<open>json.load\<close>
  gives that dictionary back.
\<close>

typedef json_object = "{config :: config. encodable_config config}"
  by (rule exI [of _ "[]"]) (simp add: encodable_config_def)

datatype config_file = Missing | Json json_object | Unreadable

datatype ledger_exn = JSONDecodeError | UnicodeEncodeError

definition load_config :: "config_file \<Rightarrow> ledger_exn + config" where
  "load_config f =
     (case f of
        Missing \<Rightarrow> Inr []
      | Json obj \<Rightarrow> Inr (Rep_json_object obj)
      | Unreadable \<Rightarrow> Inl JSONDecodeError)"

text \<open>
  \<open>with open(CONFIG_FILE, "w", encoding="utf-8") as f: json.dump(config, f, ...)\<close>.
  Opening with \<open>"w"\<close> empties the file; the encoder then writes the object piece by
  piece. A piece that cannot be encoded raises, and the file keeps the pieces written
  before it: the beginning of an object, which \<open>json.load\<close> rejects.
\<close>

definition write_config :: "config \<Rightarrow> (ledger_exn + unit) \<times> config_file" where
  "write_config config =
     (if encodable_config config then (Inr (), Json (Abs_json_object config))
      else (Inl UnicodeEncodeError, Unreadable))"



definition delete_file_list :: "config_file \<Rightarrow> pystr \<Rightarrow> (ledger_exn + unit) \<times> config_file" where
  "delete_file_list f store_id =
     (case load_config f of
        Inl e \<Rightarrow> (Inl e, f)
      | Inr config \<Rightarrow>
          (if map_of config store_id \<noteq> None then write_config (AList.delete store_id config)
           else (Inr (), f)))"

section \<open>Store deletion (management tab)\<close>

text \<open>
  The state the deletion button touches: the ledger file and
  \<open>st.session_state.current_store\<close>. The remote call
  \<open>client.file_search_stores.delete\<close> is a parameter: it returns or raises.
  The button exists only when \<open>current_store_id\<close> is truthy. Everything after the
  remote call sits in the same \<open>try\<close>, so an exception of the remote call skips
  \<open>delete_file_list\<close> and the reset of the session, and an exception of
  \<open>delete_file_list\<close> skips the reset.
\<close>

record app_state =
  ledger :: config_file
  current_store :: "pystr option"

definition delete_current_store :: "(pystr \<Rightarrow> exn + unit) \<Rightarrow> app_state \<Rightarrow> app_state" where
  "delete_current_store remote_delete st =
     (case current_store st of
        None \<Rightarrow> st
      | Some current_store_id \<Rightarrow>
          (if current_store_id = [] then st
           else
             (case remote_delete current_store_id of
                Inl e \<Rightarrow> st
              | Inr u \<Rightarrow>
                  (case delete_file_list (ledger st) current_store_id of
                     (Inl e, f) \<Rightarrow> st\<lparr>ledger := f\<rparr>
                   | (Inr v, f) \<Rightarrow> st\<lparr>ledger := f, current_store := None\<rparr>))))"

text \<open>The per-store button of the list of all stores, for the store named \<open>name\<close>.\<close>

definition delete_listed_store :: "(pystr \<Rightarrow> exn + unit) \<Rightarrow> pystr \<Rightarrow> app_state \<Rightarrow> app_state" where
  "delete_listed_store remote_delete name st =
     (case remote_delete name of
        Inl e \<Rightarrow> st
      | Inr u \<Rightarrow>
          (case delete_file_list (ledger st) name of
             (Inl e, f) \<Rightarrow> st\<lparr>ledger := f\<rparr>
           | (Inr v, f) \<Rightarrow>
               (if current_store st = Some name
                then st\<lparr>ledger := f, current_store := None\<rparr>
                else st\<lparr>ledger := f\<rparr>)))"

section \<open>Python string operations used by the program\<close>

text \<open>
  \<open>str.strip()\<close> removes leading and trailing whitespace; \<open>py_isspace\<close> lists the
  code points Python counts as whitespace.
\<close>

definition py_isspace :: "nat \<Rightarrow> bool" where
  "py_isspace c =
     (c \<in> set [0x09, 0x0A, 0x0B, 0x0C, 0x0D, 0x1C, 0x1D, 0x1E, 0x1F, 0x20, 0x85, 0xA0,
                 0x1680, 0x2028, 0x2029, 0x202F, 0x205F, 0x3000]
      \<or> (0x2000 \<le> c \<and> c \<le> 0x200A))"

definition strip :: "pystr \<Rightarrow> pystr" where
  "strip s = rev (dropWhile py_isspace (rev (dropWhile py_isspace s)))"

text \<open>\<open>str.lower()\<close>, on the ASCII letters; other code points are left as they are.\<close>

definition lower :: "pystr \<Rightarrow> pystr" where
  "lower s = map (\<lambda>c. if 65 \<le> c \<and> c \<le> 90 then c + 32 else c) s"

text \<open>
  \<open>os.path.splitext(p)[1]\<close> on a POSIX path: the extension starts at the last dot of
  the last path component, unless only dots precede it there.
\<close>

definition splitext_ext :: "pystr \<Rightarrow> pystr" where
  "splitext_ext p =
     (let base = rev (takeWhile (\<lambda>c. c \<noteq> 47) (rev p));
          ext = rev (takeWhile (\<lambda>c. c \<noteq> 46) (rev base));
          stem = take (length base - length ext - 1) base
      in if 46 \<in> set base then (if list_all (\<lambda>c. c = 46) stem then [] else 46 # ext) else [])"

text \<open>
  \<open>s.replace(old, new)\<close>: every non-overlapping occurrence of \<open>old\<close>, from the left.
  With an empty \<open>old\<close> Python puts \<open>new\<close> before every character and at the end.
\<close>

function replace_from :: "pystr \<Rightarrow> pystr \<Rightarrow> pystr \<Rightarrow> pystr" where
  "replace_from s old new =
     (if s = [] \<or> old = [] then s
      else if take (length old) s = old then new @ replace_from (drop (length old) s) old new
      else hd s # replace_from (tl s) old new)"
  by pat_completeness auto
termination
  by (relation "measure (\<lambda>(s, old, new). length s)") auto

declare replace_from.simps [simp del]

definition replace :: "pystr \<Rightarrow> pystr \<Rightarrow> pystr \<Rightarrow> pystr" where
  "replace s old new =
     (if old = [] then new @ concat (map (\<lambda>c. c # new) s) else replace_from s old new)"

text \<open>\<open>sep.join(xs)\<close> and the decimal rendering of a natural number in an f-string.\<close>

fun join :: "pystr \<Rightarrow> pystr list \<Rightarrow> pystr" where
  "join sep [] = []"
| "join sep [x] = x"
| "join sep (x # y # ys) = x @ sep @ join sep (y # ys)"

fun str_nat :: "nat \<Rightarrow> pystr" where
  "str_nat n = (if n < 10 then [48 + n] else str_nat (n div 10) @ [48 + n mod 10])"

section \<open>Scanned-PDF probe\<close>

text \<open>
  \<open>fitz.open\<close> is a parameter: it raises, or gives the document, a list of pages. A
  page is the outcome of its \<open>get_text()\<close>: the text, or an exception. The loop runs
  over \<open>doc[:3]\<close> and stops at the first exception; the bare \<open>except\<close> turns every
  exception into \<open>False\<close>.
\<close>

type_synonym page = "exn + pystr"

fun get_texts :: "page list \<Rightarrow> pystr \<Rightarrow> exn + pystr" where
  "get_texts [] text = Inr text"
| "get_texts (page # pages) text =
     (case page of Inl e \<Rightarrow> Inl e | Inr t \<Rightarrow> get_texts pages (text @ t))"

definition is_scanned_pdf :: "(pystr \<Rightarrow> exn + page list) \<Rightarrow> pystr \<Rightarrow> bool" where
  "is_scanned_pdf fitz_open pdf_path =
     (case fitz_open pdf_path of
        Inl e \<Rightarrow> False
      | Inr doc \<Rightarrow>
          (case get_texts (take 3 doc) [] of
             Inl e \<Rightarrow> False
           | Inr text \<Rightarrow> length (strip text) < 100))"

section \<open>Conversion engines\<close>

text \<open>
  Each engine wraps a library call, a parameter here that returns the markdown or
  raises (a missing module raises \<open>ImportError\<close> at the \<open>import\<close> inside the
  \<open>try\<close>). Every exception is caught and turned into \<open>None\<close>. The \<open>st.error\<close>
  and \<open>st.toast\<close> notifications are not part of the model.
\<close>

definition convert_with_pymupdf4llm :: "(pystr \<Rightarrow> exn + pystr) \<Rightarrow> pystr \<Rightarrow> pystr option" where
  "convert_with_pymupdf4llm to_markdown pdf_path =
     (case to_markdown pdf_path of Inl e \<Rightarrow> None | Inr md \<Rightarrow> Some md)"

definition convert_with_docling :: "(pystr \<Rightarrow> exn + pystr) \<Rightarrow> pystr \<Rightarrow> pystr option" where
  "convert_with_docling export_to_markdown pdf_path =
     (case export_to_markdown pdf_path of Inl e \<Rightarrow> None | Inr md \<Rightarrow> Some md)"

definition page_heading :: "nat \<Rightarrow> pystr" where
  "page_heading n = [0x23, 0x23, 0x20, 0xD398, 0xC774, 0xC9C0, 0x20] @ str_nat n @ [0x0A, 0x0A]"

definition page_separator :: pystr where
  "page_separator = ustr [CHR 0x0A, CHR 0x0A, CHR ''-'', CHR ''-'', CHR ''-'', CHR 0x0A, CHR 0x0A]"

fun vision_pages ::
  "(pystr \<Rightarrow> 'img \<Rightarrow> exn + pystr) \<Rightarrow> pystr \<Rightarrow> nat \<Rightarrow> 'img list \<Rightarrow> pystr list \<Rightarrow> exn + pystr list" where
  "vision_pages generate_content model i [] all_content = Inr all_content"
| "vision_pages generate_content model i (img # images) all_content =
     (case generate_content model img of
        Inl e \<Rightarrow> Inl e
      | Inr text \<Rightarrow>
          vision_pages generate_content model (i + 1) images
            (all_content @ [page_heading (i + 1) @ text]))"

definition convert_with_gemini_vision ::
  "(pystr \<Rightarrow> exn + 'img list) \<Rightarrow> (pystr \<Rightarrow> 'img \<Rightarrow> exn + pystr) \<Rightarrow> pystr \<Rightarrow> pystr \<Rightarrow> pystr option" where
  "convert_with_gemini_vision convert_from_path generate_content pdf_path model =
     (case convert_from_path pdf_path of
        Inl e \<Rightarrow> None
      | Inr images \<Rightarrow>
          (case vision_pages generate_content model 0 images [] of
             Inl e \<Rightarrow> None
           | Inr all_content \<Rightarrow> Some (join page_separator all_content)))"

text \<open>
  A sheet read by \<open>pd.read_excel\<close> is a data frame: column labels and rows of cells. A
  cell is missing (\<open>NaN\<close>), a string, or another value. \<open>df.empty\<close> holds when an
  axis has length zero; \<open>fillna("")\<close> puts the empty string into every missing cell.
  \<open>read_excel\<close> (with \<open>sheet_name=None\<close>: all sheets, in workbook order) and the
  table renderer \<open>to_markdown\<close> are parameters, and both may raise.
\<close>

datatype 'v cell = NaN | Str pystr | Val 'v

record 'v dataframe =
  columns :: "pystr list"
  rows :: "'v cell list list"

definition empty :: "'v dataframe \<Rightarrow> bool" where
  "empty df = (columns df = [] \<or> rows df = [])"

definition fillna :: "'v dataframe \<Rightarrow> 'v dataframe" where
  "fillna df = df\<lparr>rows := map (map (\<lambda>c. case c of NaN \<Rightarrow> Str [] | Str s \<Rightarrow> Str s | Val v \<Rightarrow> Val v)) (rows df)\<rparr>"

definition sheet_heading :: "pystr \<Rightarrow> pystr" where
  "sheet_heading sheet_name =
     [0x0A, 0x0A, 0x23, 0x23, 0x20, 0xC5D1, 0xC140, 0x20, 0xC2DC, 0xD2B8, 0x3A, 0x20]
     @ sheet_name @ [0x0A, 0x0A]"

fun excel_sheets ::
  "('v dataframe \<Rightarrow> exn + pystr) \<Rightarrow> (pystr \<times> 'v dataframe) list \<Rightarrow> pystr \<Rightarrow> exn + pystr" where
  "excel_sheets to_markdown [] text_output = Inr text_output"
| "excel_sheets to_markdown ((sheet_name, df) # items) text_output =
     (if empty df then excel_sheets to_markdown items text_output
      else
        (case to_markdown (fillna df) of
           Inl e \<Rightarrow> Inl e
         | Inr table \<Rightarrow>
             excel_sheets to_markdown items (text_output @ sheet_heading sheet_name @ table)))"

definition convert_excel_to_markdown ::
  "(pystr \<Rightarrow> exn + (pystr \<times> 'v dataframe) list) \<Rightarrow> ('v dataframe \<Rightarrow> exn + pystr) \<Rightarrow> pystr \<Rightarrow> pystr option" where
  "convert_excel_to_markdown read_excel to_markdown file_path =
     (case read_excel file_path of
        Inl e \<Rightarrow> None
      | Inr xls \<Rightarrow>
          (case excel_sheets to_markdown xls [] of
             Inl e \<Rightarrow> None
           | Inr text_output \<Rightarrow> Some text_output))"

section \<open>Reading the markdown output\<close>

text \<open>
  What the claims about the converted text speak of. The lines of a text end at a line
  feed or a carriage return. A line is a level-2 heading when it has at most three
  spaces, then exactly two number signs, then a space, a tab or nothing more.
\<close>

definition is_eol :: "nat \<Rightarrow> bool" where
  "is_eol c = (c = 10 \<or> c = 13)"

fun text_lines :: "pystr \<Rightarrow> pystr list" where
  "text_lines [] = [[]]"
| "text_lines (c # cs) =
     (if is_eol c then [] # text_lines cs
      else (case text_lines cs of [] \<Rightarrow> [[c]] | l # ls \<Rightarrow> (c # l) # ls))"

definition is_level2_heading :: "pystr \<Rightarrow> bool" where
  "is_level2_heading line =
     (let body = dropWhile (\<lambda>c. c = 32) line
      in length line - length body \<le> 3 \<and> take 2 body = [35, 35]
         \<and> (case drop 2 body of [] \<Rightarrow> True | c # rest \<Rightarrow> c = 32 \<or> c = 9))"

definition level2_headings :: "pystr \<Rightarrow> pystr list" where
  "level2_headings text = filter is_level2_heading (text_lines text)"

text \<open>
  The sheets that are not empty, a sheet with the empty string in each missing cell
  and every other cell as it is, and the table the renderer returns for it. A sheet
  name is plain when it has no line break; a sheet renders when the renderer returns
  a table none of whose lines is a level-2 heading (the lines of a pipe table begin
  with a vertical bar).
\<close>

definition non_empty_sheets :: "(pystr \<times> 'v dataframe) list \<Rightarrow> (pystr \<times> 'v dataframe) list" where
  "non_empty_sheets xls = filter (\<lambda>(sheet_name, df). \<not> empty df) xls"

definition with_blanks :: "'v dataframe \<Rightarrow> 'v dataframe" where
  "with_blanks df =
     \<lparr>columns = columns df,
      rows = map (map (\<lambda>c. if c = NaN then Str [] else c)) (rows df)\<rparr>"

definition table_of :: "('v dataframe \<Rightarrow> exn + pystr) \<Rightarrow> 'v dataframe \<Rightarrow> pystr" where
  "table_of to_md df = (case to_md (with_blanks df) of Inl e \<Rightarrow> [] | Inr table \<Rightarrow> table)"

definition plain_name :: "pystr \<Rightarrow> bool" where
  "plain_name sheet_name = list_all (\<lambda>c. c \<noteq> 10 \<and> c \<noteq> 13) sheet_name"

definition renders_table :: "('v dataframe \<Rightarrow> exn + pystr) \<Rightarrow> 'v dataframe \<Rightarrow> bool" where
  "renders_table to_md df =
     (case to_md (with_blanks df) of Inl e \<Rightarrow> False | Inr table \<Rightarrow> level2_headings table = [])"

section \<open>Waiting for a long-running operation\<close>

text \<open>
  Time is a clock in whole seconds, advanced by \<open>time.sleep(n)\<close> by \<open>n\<close>. The
  statements between two sleeps take a positive time, small against a second, which
  the clock does not count. The time the program reads is therefore a little more than
  the seconds slept, and its test \<open>time.time() - start_time > timeout\<close> holds exactly
  when the seconds slept since \<open>start_time\<close> have reached \<open>timeout\<close>.
  \<open>client.operations.get\<close> is a parameter: given the time of the call and the
  operation, it returns the refreshed operation or raises. The message of the
  \<open>TimeoutError\<close> is a literal of the source.
\<close>

record operation =
  op_name :: pystr
  op_done :: bool

definition timeout_message :: pystr where
  "timeout_message =
     [0xC791, 0xC5C5, 0x20, 0xC2DC, 0xAC04, 0x20, 0xCD08, 0xACFC, 0x20, 0x28, 0x35, 0xBD84, 0x29]"

function wait_loop ::
  "(int \<Rightarrow> operation \<Rightarrow> exn + operation) \<Rightarrow> int \<Rightarrow> int \<Rightarrow> operation \<Rightarrow> int \<Rightarrow> (exn + operation) \<times> int" where
  "wait_loop operations_get start_time timeout operation now =
     (if op_done operation then (Inr operation, now)
      else if now - start_time \<ge> timeout then (Inl (TimeoutError timeout_message), now)
      else
        (case operations_get (now + 3) operation of
           Inl e \<Rightarrow> (Inl e, now + 3)
         | Inr operation' \<Rightarrow> wait_loop operations_get start_time timeout operation' (now + 3)))"
  by pat_completeness auto
termination
  by (relation "measure (\<lambda>(g, start_time, timeout, operation, now). nat (start_time + timeout - now))")
     auto

declare wait_loop.simps [simp del]

definition wait_for_operation ::
  "(int \<Rightarrow> operation \<Rightarrow> exn + operation) \<Rightarrow> operation \<Rightarrow> int \<Rightarrow> int \<Rightarrow> (exn + operation) \<times> int" where
  "wait_for_operation operations_get operation timeout now =
     wait_loop operations_get now timeout operation now"

section \<open>Ingestion of one uploaded file\<close>

text \<open>
  The libraries and the remote service \<open>upload_and_import_file\<close> calls. \<open>tmp_prefix\<close>
  is the directory and random name \<open>NamedTemporaryFile\<close> picks, so that the staged
  file is \<open>tmp_prefix\<close> followed by the suffix.
\<close>

record ('img, 'v) env =
  tmp_prefix :: pystr
  fitz_open :: "pystr \<Rightarrow> exn + page list"
  pymupdf4llm_to_markdown :: "pystr \<Rightarrow> exn + pystr"
  docling_export_to_markdown :: "pystr \<Rightarrow> exn + pystr"
  convert_from_path :: "pystr \<Rightarrow> exn + 'img list"
  generate_content :: "pystr \<Rightarrow> 'img \<Rightarrow> exn + pystr"
  read_excel :: "pystr \<Rightarrow> exn + (pystr \<times> 'v dataframe) list"
  to_markdown :: "'v dataframe \<Rightarrow> exn + pystr"
  files_upload :: "pystr \<Rightarrow> pystr \<Rightarrow> pystr \<Rightarrow> exn + pystr"
  import_file :: "pystr \<Rightarrow> pystr \<Rightarrow> exn + operation"
  operations_get :: "int \<Rightarrow> operation \<Rightarrow> exn + operation"

text \<open>
  The uploaded file, and the part of the world the call changes: the clock and the
  local files (path to content). Creating, writing and removing a local file succeed.
\<close>

record uploaded_file =
  name :: pystr
  getvalue :: "nat list"

record world =
  clock :: int
  disk :: "pystr \<rightharpoonup> nat list"

definition excel_suffixes :: "pystr list" where
  "excel_suffixes = [ustr ''.xlsx'', ustr ''.xls'', ustr ''.xlsm'']"

definition excel_tag :: pystr where
  "excel_tag = [0x20, 0x28, 0xD45C, 0x20, 0xCD5C, 0xC801, 0xD654, 0x29]"

definition vision_tag :: pystr where
  "vision_tag = ustr '' (Vision '' @ [0xCD94, 0xCD9C, 0x29]"

definition markdown_tag :: pystr where
  "markdown_tag = [0x20, 0x28, 0xB9C8, 0xD06C, 0xB2E4, 0xC6B4, 0x20, 0xBCC0, 0xD658, 0x29]"

definition docling_method :: pystr where
  "docling_method = ustr ''Docling ('' @ [0xC815, 0xD655, 0x2C, 0x20, 0xB290, 0xB9BC, 0x29]"

text \<open>
  Steps 1 and 2 of the \<open>try\<close> block: the converter chosen by the suffix and the probe,
  giving \<open>converted_content\<close> and \<open>display_name\<close>. No converter raises.
\<close>

definition convert_step ::
  "('img, 'v) env \<Rightarrow> pystr \<Rightarrow> pystr \<Rightarrow> pystr \<Rightarrow> pystr \<Rightarrow> pystr \<Rightarrow> pystr option \<times> pystr" where
  "convert_step env file_name suffix tmp_path preprocess_method vision_model =
     (if suffix \<in> set excel_suffixes then
        (convert_excel_to_markdown (read_excel env) (to_markdown env) tmp_path,
         file_name @ excel_tag)
      else if suffix = ustr ''.pdf'' then
        (if is_scanned_pdf (fitz_open env) tmp_path then
           (convert_with_gemini_vision (convert_from_path env) (generate_content env)
              tmp_path vision_model,
            file_name @ vision_tag)
         else
           (if preprocess_method = docling_method
            then convert_with_docling (docling_export_to_markdown env) tmp_path
            else convert_with_pymupdf4llm (pymupdf4llm_to_markdown env) tmp_path,
            file_name @ markdown_tag))
      else (None, file_name))"

text \<open>
  Step 3: \<open>md_path\<close> is set only when \<open>converted_content\<close> is truthy (neither
  \<open>None\<close> nor the empty string).
\<close>

definition md_path_of :: "pystr \<Rightarrow> pystr \<Rightarrow> pystr option \<Rightarrow> pystr option" where
  "md_path_of tmp_path suffix converted_content =
     (case converted_content of
        None \<Rightarrow> None
      | Some text \<Rightarrow> if text = [] then None else Some (replace tmp_path suffix (ustr ''.md'')))"

text \<open>
  Steps 3 to 5, after the conversion: the result is the display name, or the exception
  that left the \<open>try\<close> block; the world is the one at that moment.
\<close>

definition upload_steps ::
  "('img, 'v) env \<Rightarrow> pystr \<Rightarrow> pystr \<Rightarrow> pystr \<Rightarrow> pystr option \<Rightarrow> pystr \<Rightarrow> world \<Rightarrow> (exn + pystr) \<times> world" where
  "upload_steps env store_name tmp_path suffix converted_content display_name w =
     (let md_path = md_path_of tmp_path suffix converted_content;
          w1 = (case (md_path, converted_content) of
                  (Some p, Some text) \<Rightarrow> w\<lparr>disk := (disk w)(p \<mapsto> text)\<rparr>
                | _ \<Rightarrow> w);
          upload_path = (case md_path of None \<Rightarrow> tmp_path | Some p \<Rightarrow> p);
          mime_type = (case md_path of
                         None \<Rightarrow> ustr ''application/octet-stream''
                       | Some p \<Rightarrow> ustr ''text/markdown'')
      in case files_upload env upload_path mime_type display_name of
           Inl e \<Rightarrow> (Inl e, w1)
         | Inr file_obj_name \<Rightarrow>
             (let w2 = w1\<lparr>clock := clock w1 + 2\<rparr>
              in case import_file env store_name file_obj_name of
                   Inl e \<Rightarrow> (Inl e, w2)
                 | Inr import_operation \<Rightarrow>
                     (case wait_for_operation (operations_get env) import_operation 300 (clock w2) of
                        (Inl e, t) \<Rightarrow> (Inl e, w2\<lparr>clock := t\<rparr>)
                      | (Inr operation, t) \<Rightarrow> (Inr display_name, w2\<lparr>clock := t\<rparr>))))"

text \<open>\<open>if os.path.exists(p): os.remove(p)\<close>\<close>

definition remove_if_exists :: "pystr \<Rightarrow> (pystr \<rightharpoonup> nat list) \<Rightarrow> (pystr \<rightharpoonup> nat list)" where
  "remove_if_exists p fs = (if fs p \<noteq> None then fs(p := None) else fs)"

text \<open>
  The whole call: stage the upload, run the \<open>try\<close> block, turn its outcome into the
  returned pair (\<open>except Exception as e: return False, str(e)\<close>), and run the
  \<open>finally\<close> block.
\<close>

definition upload_and_import_file ::
  "('img, 'v) env \<Rightarrow> pystr \<Rightarrow> uploaded_file \<Rightarrow> pystr \<Rightarrow> pystr \<Rightarrow> world \<Rightarrow> (bool \<times> pystr) \<times> world" where
  "upload_and_import_file env store_name uploaded_file preprocess_method vision_model w =
     (let suffix = lower (splitext_ext (name uploaded_file));
          tmp_path = tmp_prefix env @ suffix;
          w0 = w\<lparr>disk := (disk w)(tmp_path \<mapsto> getvalue uploaded_file)\<rparr>;
          (converted_content, display_name) =
             convert_step env (name uploaded_file) suffix tmp_path preprocess_method vision_model;
          md_path = md_path_of tmp_path suffix converted_content;
          (outcome, w1) =
             upload_steps env store_name tmp_path suffix converted_content display_name w0;
          result = (case outcome of
                      Inr shown \<Rightarrow> (True, shown)
                    | Inl e \<Rightarrow> (False, str_exn e));
          fs1 = remove_if_exists tmp_path (disk w1);
          fs2 = (case md_path of
                   None \<Rightarrow> fs1
                 | Some p \<Rightarrow> if p \<noteq> [] then remove_if_exists p fs1 else fs1)
      in (result, w1\<lparr>disk := fs2\<rparr>))"

text \<open>
  The two files a call creates: the staged upload, and the markdown file when step 3
  writes one.
\<close>

definition staged_path :: "('img, 'v) env \<Rightarrow> uploaded_file \<Rightarrow> pystr" where
  "staged_path env uploaded_file = tmp_prefix env @ lower (splitext_ext (name uploaded_file))"

definition staged_md_path ::
  "('img, 'v) env \<Rightarrow> uploaded_file \<Rightarrow> pystr \<Rightarrow> pystr \<Rightarrow> pystr option" where
  "staged_md_path env uploaded_file preprocess_method vision_model =
     (let suffix = lower (splitext_ext (name uploaded_file));
          tmp_path = tmp_prefix env @ suffix
      in md_path_of tmp_path suffix
           (fst (convert_step env (name uploaded_file) suffix tmp_path preprocess_method vision_model)))"

section \<open>Upload widget\<close>

text \<open>
  The \<open>type\<close> list given to \<open>st.file_uploader\<close>. The widget accepts a file when its
  extension, without the dot and in lower case, is in the list.
\<close>

definition upload_types :: "pystr list" where
  "upload_types =
     [ustr ''pdf'', ustr ''xlsx'', ustr ''xls'', ustr ''txt'', ustr ''md'', ustr ''csv'', ustr ''docx'']"

definition uploader_accepts :: "pystr \<Rightarrow> bool" where
  "uploader_accepts file_name =
     (lower (splitext_ext file_name) \<in> set (map (\<lambda>t. 46 # t) upload_types))"

section \<open>Concrete scenarios\<close>



definition store_a :: pystr where
  "store_a = ustr ''fileSearchStores/a''"




definition pending :: operation where
  "pending = \<lparr>op_name = ustr ''operations/1'', op_done = False\<rparr>"

definition finished :: operation where
  "finished = \<lparr>op_name = ustr ''operations/1'', op_done = True\<rparr>"

definition never_done :: "int \<Rightarrow> operation \<Rightarrow> exn + operation" where
  "never_done t operation = Inr operation"

text \<open>
  Page texts of a PDF: 104 characters on the first three pages, 99 of them between the
  leading and trailing whitespace; the fourth page cannot be read.
\<close>

definition sample_texts :: "pystr list" where
  "sample_texts = [[32, 10] @ replicate 50 97, replicate 49 98 @ [10], [32, 10]]"

definition sample_open :: "pystr \<Rightarrow> exn + page list" where
  "sample_open pdf_path = Inr (map Inr sample_texts @ [Inl (Exception (ustr ''bad page''))])"

definition corrupt_open :: "pystr \<Rightarrow> exn + page list" where
  "corrupt_open pdf_path = Inl (Exception (ustr ''cannot open broken document''))"

text \<open>
  A workbook of three sheets, the second without rows, and a plain renderer of pipe
  tables standing in for the library's.
\<close>

fun cell_text :: "int cell \<Rightarrow> pystr" where
  "cell_text NaN = ustr ''nan''"
| "cell_text (Str s) = s"
| "cell_text (Val v) = (if v < 0 then 45 # str_nat (nat (- v)) else str_nat (nat v))"

definition pipe_row :: "pystr list \<Rightarrow> pystr" where
  "pipe_row cells = 124 # concat (map (\<lambda>c. c @ [124]) cells) @ [10]"

definition pipe_table :: "int dataframe \<Rightarrow> pystr" where
  "pipe_table df = concat (map pipe_row (columns df # map (map cell_text) (rows df)))"

definition pipe_to_markdown :: "int dataframe \<Rightarrow> exn + pystr" where
  "pipe_to_markdown df = Inr (pipe_table df)"

definition sales :: "int dataframe" where
  "sales = \<lparr>columns = [ustr ''item'', ustr ''qty''],
            rows = [[Str (ustr ''pen''), Val 3], [Str (ustr ''ink''), NaN]]\<rparr>"

definition blank :: "int dataframe" where
  "blank = \<lparr>columns = [ustr ''item'', ustr ''qty''], rows = []\<rparr>"

definition memo :: "int dataframe" where
  "memo = \<lparr>columns = [ustr ''note''], rows = [[NaN]]\<rparr>"

text \<open>A workbook whose only sheet has a line break in its name.\<close>

definition tricky_name :: pystr where
  "tricky_name = ustr ''Q1'' @ [10] @ ustr ''## Q2''"

definition tricky_workbook :: "pystr \<Rightarrow> exn + (pystr \<times> int dataframe) list" where
  "tricky_workbook file_path = Inr [(tricky_name, sales)]"

definition sample_workbook :: "pystr \<Rightarrow> exn + (pystr \<times> int dataframe) list" where
  "sample_workbook file_path =
     Inr [(ustr ''Sales'', sales), (ustr ''Blank'', blank), (ustr ''Memo'', memo)]"

text \<open>
  An environment where no document can be parsed (PDFs do not open, workbooks are
  rejected), the fast PDF engine still returns text, and the remote service accepts
  every upload and reports the import done at once.
\<close>

definition corrupt_env :: "(unit, int) env" where
  "corrupt_env =
     \<lparr>tmp_prefix = ustr ''/tmp/tmpk3x9_q2a'',
      fitz_open = corrupt_open,
      pymupdf4llm_to_markdown = (\<lambda>p. Inr (ustr ''# recovered text'')),
      docling_export_to_markdown = (\<lambda>p. Inl (Exception (ustr ''No module named docling''))),
      convert_from_path = (\<lambda>p. Inr [(), ()]),
      generate_content = (\<lambda>m img. Inr (ustr ''page'')),
      read_excel = (\<lambda>p. Inl (Exception (ustr ''File is not a zip file''))),
      to_markdown = (\<lambda>df. Inl (Exception (ustr ''Missing optional dependency tabulate''))),
      files_upload = (\<lambda>p m d. Inr (ustr ''files/abc'')),
      import_file = (\<lambda>s f. Inr finished),
      operations_get = never_done\<rparr>"

text \<open>
  An environment where the workbook converts, the upload is accepted, and the import
  operation never finishes.
\<close>

definition stalled_env :: "(unit, int) env" where
  "stalled_env =
     \<lparr>tmp_prefix = ustr ''/tmp/tmpk3x9_q2a'',
      fitz_open = sample_open,
      pymupdf4llm_to_markdown = (\<lambda>p. Inr (ustr ''# text'')),
      docling_export_to_markdown = (\<lambda>p. Inr (ustr ''# text'')),
      convert_from_path = (\<lambda>p. Inr [(), ()]),
      generate_content = (\<lambda>m img. Inr (ustr ''page'')),
      read_excel = sample_workbook,
      to_markdown = pipe_to_markdown,
      files_upload = (\<lambda>p m d. Inr (ustr ''files/abc'')),
      import_file = (\<lambda>s f. Inr pending),
      operations_get = never_done\<rparr>"

definition book :: uploaded_file where
  "book = \<lparr>name = ustr ''Book.XLSX'', getvalue = [0, 1, 2, 3]\<rparr>"

definition world0 :: world where
  "world0 = \<lparr>clock = 0, disk = Map.empty\<rparr>"

definition scan :: uploaded_file where
  "scan = \<lparr>name = ustr ''scan.pdf'', getvalue = [0, 1, 2, 3]\<rparr>"

text \<open>The other label of the engine selector; any value but \<open>docling_method\<close> selects pymupdf4llm.\<close>

definition fast_method :: pystr where
  "fast_method = ustr ''pymupdf4llm ('' @ [0xBE60, 0xB984, 0x29]"

section \<open>The ledger\<close>















section \<open>Store deletion\<close>




text \<open>When the remote call raises, the handler changes nothing.\<close>

lemma delete_current_store_remote_failure:
  "current_store st = Some s \<Longrightarrow> remote_delete s = Inl e \<Longrightarrow> delete_current_store remote_delete st = st"
  by (simp add: delete_current_store_def)

section \<open>Polling\<close>

text \<open>An operation that is done at the first test is returned at once: the clock has not moved.\<close>

lemma wait_for_operation_done_first:
  "op_done operation \<Longrightarrow> wait_for_operation g operation timeout now = (Inr operation, now)"
  by (simp add: wait_for_operation_def wait_loop.simps)

text \<open>
  Against a service that answers every poll with an operation that is not done, the
  wait ends, for every budget, with the \<open>TimeoutError\<close> of the one fixed message.
\<close>

lemma wait_loop_fixed_message:
  assumes "\<And>t operation. \<exists>operation'. g t operation = Inr operation' \<and> \<not> op_done operation'"
    and "\<not> op_done operation"
  shows "fst (wait_loop g start_time timeout operation now) = Inl (TimeoutError timeout_message)"
  using assms
proof (induction g start_time timeout operation now rule: wait_loop.induct)
  case (1 g start_time timeout operation now)
  show ?case
  proof (cases "now - start_time \<ge> timeout")
    case True
    with "1.prems"(2) show ?thesis
      by (subst wait_loop.simps) simp
  next
    case False
    from "1.prems"(1) obtain operation' where
      g: "g (now + 3) operation = Inr operation'" and nd: "\<not> op_done operation'"
      by blast
    have "fst (wait_loop g start_time timeout operation' (now + 3)) = Inl (TimeoutError timeout_message)"
      using "1.IH" [OF "1.prems"(2) False g "1.prems"(1) nd] .
    with "1.prems"(2) False g show ?thesis
      by (subst wait_loop.simps) simp
  qed
qed

text \<open>
  Claim C2 asks that the timeout error name the configured budget. With a budget of
  60 seconds and an operation that never finishes, the error is raised after 60
  seconds with the same text as with the default 300 seconds: the literal that ends in
  \<open>(5\<close>, the sign for minutes, \<open>)\<close>.
\<close>

theorem wait_for_operation_message_ignores_timeout:
  "wait_for_operation never_done pending 60 0 = (Inl (TimeoutError timeout_message), 60)
   \<and> wait_for_operation never_done pending 300 0 = (Inl (TimeoutError timeout_message), 300)
   \<and> timeout_message =
       [0xC791, 0xC5C5, 0x20, 0xC2DC, 0xAC04, 0x20, 0xCD08, 0xACFC, 0x20]
       @ ustr ''(5'' @ [0xBD84] @ ustr '')''"
  by (simp add: wait_for_operation_def wait_loop.simps never_done_def pending_def
      timeout_message_def ustr_def)

section \<open>Accepted upload types\<close>

text \<open>
  Claim C8 lists \<open>xlsm\<close> among the accepted extensions. The list given to the upload
  widget has no \<open>xlsm\<close>, so \<open>book.xlsm\<close> is not accepted, although
  \<open>upload_and_import_file\<close> has \<open>.xlsm\<close> among the spreadsheet suffixes;
  \<open>book.xlsx\<close> is accepted.
\<close>

theorem uploader_rejects_xlsm:
  "\<not> uploader_accepts (ustr ''book.xlsm'')
   \<and> lower (splitext_ext (ustr ''book.xlsm'')) \<in> set excel_suffixes
   \<and> uploader_accepts (ustr ''book.xlsx'')"
  by (simp add: uploader_accepts_def upload_types_def excel_suffixes_def splitext_ext_def
      lower_def ustr_def)

section \<open>The scanned-PDF probe\<close>

lemma get_texts_map_Inr: "get_texts (map Inr ts) acc = Inr (acc @ concat ts)"
  by (induction ts arbitrary: acc) simp_all

lemma strip_trim:
  assumes "list_all py_isspace l" and "list_all py_isspace r"
    and "m \<noteq> []" and "\<not> py_isspace (hd m)" and "\<not> py_isspace (last m)"
  shows "strip (l @ m @ r) = m"
proof -
  have front: "dropWhile py_isspace (l @ m @ r) = m @ r"
  proof -
    have "dropWhile py_isspace (l @ m @ r) = dropWhile py_isspace (m @ r)"
      using assms(1) by (intro dropWhile_append2) (auto simp: list_all_iff)
    also have "\<dots> = m @ r"
      using assms(3,4) by (cases m) simp_all
    finally show ?thesis .
  qed
  have "dropWhile py_isspace (rev r @ rev m) = dropWhile py_isspace (rev m)"
    using assms(2) by (intro dropWhile_append2) (auto simp: list_all_iff)
  also have "\<dots> = rev m"
    using assms(3,5) by (cases "rev m") (simp_all add: last_rev [symmetric] hd_rev)
  finally show ?thesis
    by (simp add: strip_def front)
qed

lemma strip_sample_texts: "strip (concat sample_texts) = replicate 50 97 @ replicate 49 98"
proof -
  have "concat sample_texts = [32, 10] @ (replicate 50 97 @ replicate 49 98) @ [10, 32, 10]"
    by (simp add: sample_texts_def)
  moreover have "strip ([32, 10] @ (replicate 50 97 @ replicate 49 98) @ [10, 32, 10])
                   = replicate 50 97 @ replicate 49 98"
    by (rule strip_trim) (simp_all add: py_isspace_def)
  ultimately show ?thesis by simp
qed

text \<open>
  Claim C5. When the PDF opens and the text of its first three pages can be read,
  \<open>is_scanned_pdf\<close> is true exactly when the concatenation of those texts, stripped
  of surrounding whitespace, is shorter than 100 characters; from 100 on it is false
  (the digital path).
\<close>

theorem is_scanned_pdf_threshold:
  assumes "opener p = Inr doc" and "take 3 doc = map Inr texts"
  shows "is_scanned_pdf opener p = (length (strip (concat texts)) < 100)"
  using assms by (simp add: is_scanned_pdf_def get_texts_map_Inr)

theorem is_scanned_pdf_threshold_witness:
  "sample_open (ustr ''/tmp/tmpk3x9_q2a.pdf'')
     = Inr (map Inr sample_texts @ [Inl (Exception (ustr ''bad page''))])
   \<and> take 3 (map Inr sample_texts @ [Inl (Exception (ustr ''bad page''))]) = map Inr sample_texts
   \<and> length (concat sample_texts) = 104
   \<and> length (strip (concat sample_texts)) = 99
   \<and> is_scanned_pdf sample_open (ustr ''/tmp/tmpk3x9_q2a.pdf'')"
proof -
  let ?doc = "map Inr sample_texts @ [Inl (Exception (ustr ''bad page''))]"
  have h1: "sample_open (ustr ''/tmp/tmpk3x9_q2a.pdf'') = Inr ?doc"
    by (simp add: sample_open_def)
  have h2: "take 3 ?doc = map Inr sample_texts"
    by (simp add: sample_texts_def)
  have l1: "length (concat sample_texts) = 104"
    by (simp add: sample_texts_def)
  have l2: "length (strip (concat sample_texts)) = 99"
    by (simp add: strip_sample_texts)
  show ?thesis
    using h1 h2 l1 l2 is_scanned_pdf_threshold [where opener = sample_open, OF h1 h2] by simp
qed

lemma pdf_not_excel: "ustr ''.pdf'' \<notin> set excel_suffixes"
  by (simp add: excel_suffixes_def ustr_def)

text \<open>
  Claim C6. When opening the PDF raises, or reading one of its first three pages
  raises, \<open>is_scanned_pdf\<close> is false, and the pipeline takes the digital path for the
  file: the engine the operator selected, not the vision engine.
\<close>

theorem is_scanned_pdf_fail_open:
  assumes "fitz_open env tmp_path = Inl e
           \<or> (\<exists>doc. fitz_open env tmp_path = Inr doc \<and> get_texts (take 3 doc) [] = Inl e)"
  shows "\<not> is_scanned_pdf (fitz_open env) tmp_path
         \<and> convert_step env file_name (ustr ''.pdf'') tmp_path preprocess_method vision_model
             = (if preprocess_method = docling_method
                then convert_with_docling (docling_export_to_markdown env) tmp_path
                else convert_with_pymupdf4llm (pymupdf4llm_to_markdown env) tmp_path,
                file_name @ markdown_tag)"
proof -
  from assms have ns: "\<not> is_scanned_pdf (fitz_open env) tmp_path"
    by (auto simp: is_scanned_pdf_def)
  then show ?thesis
    using pdf_not_excel by (simp add: convert_step_def)
qed

theorem is_scanned_pdf_fail_open_witness:
  "fitz_open corrupt_env (ustr ''/tmp/tmpk3x9_q2a.pdf'')
     = Inl (Exception (ustr ''cannot open broken document''))
   \<and> \<not> is_scanned_pdf (fitz_open corrupt_env) (ustr ''/tmp/tmpk3x9_q2a.pdf'')
   \<and> convert_step corrupt_env (ustr ''scan.pdf'') (ustr ''.pdf'') (ustr ''/tmp/tmpk3x9_q2a.pdf'')
        fast_method (ustr ''gemini-2.0-flash'')
       = (Some (ustr ''# recovered text''), ustr ''scan.pdf'' @ markdown_tag)"
proof -
  have h: "fitz_open corrupt_env (ustr ''/tmp/tmpk3x9_q2a.pdf'')
             = Inl (Exception (ustr ''cannot open broken document''))"
    by (simp add: corrupt_env_def corrupt_open_def)
  have d: "fast_method \<noteq> docling_method"
    by (simp add: fast_method_def docling_method_def ustr_def)
  have c: "convert_with_pymupdf4llm (pymupdf4llm_to_markdown corrupt_env) (ustr ''/tmp/tmpk3x9_q2a.pdf'')
             = Some (ustr ''# recovered text'')"
    by (simp add: convert_with_pymupdf4llm_def corrupt_env_def)
  show ?thesis
    using h d c
      is_scanned_pdf_fail_open [where env = corrupt_env and file_name = "ustr ''scan.pdf''"
        and preprocess_method = fast_method and vision_model = "ustr ''gemini-2.0-flash''",
        OF disjI1, OF h]
    by simp
qed

section \<open>Spreadsheet conversion\<close>

lemma text_lines_not_Nil: "text_lines s \<noteq> []"
  by (induction s) (auto split: list.splits)

lemma text_lines_no_eol: "list_all (\<lambda>c. \<not> is_eol c) s \<Longrightarrow> text_lines s = [s]"
  by (induction s) auto

lemma text_lines_append_eol:
  "is_eol c \<Longrightarrow> text_lines (a @ c # b) = text_lines a @ text_lines b"
proof (induction a)
  case Nil
  then show ?case by simp
next
  case (Cons x a)
  then show ?case
    using text_lines_not_Nil [of a] by (cases "text_lines a") auto
qed

lemma level2_headings_append_eol:
  "is_eol c \<Longrightarrow> level2_headings (a @ c # b) = level2_headings a @ level2_headings b"
  by (simp add: level2_headings_def text_lines_append_eol)

lemma level2_headings_Nil: "level2_headings [] = []"
  by (simp add: level2_headings_def is_level2_heading_def)

lemma level2_headings_eol: "is_eol c \<Longrightarrow> level2_headings (c # b) = level2_headings b"
  using level2_headings_append_eol [of c "[]" b] by (simp add: level2_headings_Nil)

lemma sheet_heading_line:
  "is_level2_heading ([0x23, 0x23, 0x20, 0xC5D1, 0xC140, 0x20, 0xC2DC, 0xD2B8, 0x3A, 0x20] @ n)"
  by (simp add: is_level2_heading_def)

lemma level2_headings_heading_line:
  assumes "plain_name n"
  shows "level2_headings ([0x23, 0x23, 0x20, 0xC5D1, 0xC140, 0x20, 0xC2DC, 0xD2B8, 0x3A, 0x20] @ n)
           = [[0x23, 0x23, 0x20, 0xC5D1, 0xC140, 0x20, 0xC2DC, 0xD2B8, 0x3A, 0x20] @ n]"
proof -
  have "list_all (\<lambda>c. \<not> is_eol c) ([0x23, 0x23, 0x20, 0xC5D1, 0xC140, 0x20, 0xC2DC, 0xD2B8, 0x3A, 0x20] @ n)"
    using assms by (simp add: plain_name_def is_eol_def list_all_iff)
  then have "text_lines ([0x23, 0x23, 0x20, 0xC5D1, 0xC140, 0x20, 0xC2DC, 0xD2B8, 0x3A, 0x20] @ n)
               = [[0x23, 0x23, 0x20, 0xC5D1, 0xC140, 0x20, 0xC2DC, 0xD2B8, 0x3A, 0x20] @ n]"
    by (rule text_lines_no_eol)
  then show ?thesis
    using sheet_heading_line [of n] by (simp add: level2_headings_def)
qed

lemma level2_headings_table_then:
  assumes "level2_headings t = []" and "rest = [] \<or> (\<exists>r. rest = 10 # r)"
  shows "level2_headings (t @ rest) = level2_headings rest"
  using assms(2)
proof
  assume "rest = []"
  with assms(1) show ?thesis by (simp add: level2_headings_Nil)
next
  assume "\<exists>r. rest = 10 # r"
  then obtain r where r: "rest = 10 # r" by blast
  have e: "is_eol 10" by (simp add: is_eol_def)
  show ?thesis
    unfolding r using assms(1) level2_headings_append_eol [OF e, of t r] level2_headings_eol [OF e, of r]
    by simp
qed

lemma level2_headings_block:
  assumes "plain_name n" and "level2_headings t = []" and "rest = [] \<or> (\<exists>r. rest = 10 # r)"
  shows "level2_headings
           (([0x0A, 0x0A, 0x23, 0x23, 0x20, 0xC5D1, 0xC140, 0x20, 0xC2DC, 0xD2B8, 0x3A, 0x20] @ n
             @ [0x0A, 0x0A] @ t) @ rest)
         = ([0x23, 0x23, 0x20, 0xC5D1, 0xC140, 0x20, 0xC2DC, 0xD2B8, 0x3A, 0x20] @ n)
           # level2_headings rest"
proof -
  let ?h = "[0x23, 0x23, 0x20, 0xC5D1, 0xC140, 0x20, 0xC2DC, 0xD2B8, 0x3A, 0x20] @ n"
  have e: "is_eol 10" by (simp add: is_eol_def)
  have "level2_headings (10 # 10 # ?h @ 10 # 10 # t @ rest)
          = level2_headings (?h @ 10 # 10 # t @ rest)"
    by (simp add: level2_headings_eol [OF e])
  also have "\<dots> = level2_headings ?h @ level2_headings (10 # t @ rest)"
    by (rule level2_headings_append_eol [OF e])
  also have "\<dots> = ?h # level2_headings (t @ rest)"
    using level2_headings_heading_line [OF assms(1)] by (simp add: level2_headings_eol [OF e])
  also have "\<dots> = ?h # level2_headings rest"
    using level2_headings_table_then [OF assms(2,3)] by simp
  finally show ?thesis by simp
qed

lemma fillna_with_blanks: "fillna df = with_blanks df"
proof -
  have "(\<lambda>c. case c of NaN \<Rightarrow> Str [] | Str s \<Rightarrow> Str s | Val v \<Rightarrow> Val v)
          = (\<lambda>c :: 'a cell. if c = NaN then Str [] else c)"
    by (rule ext) (simp split: cell.splits)
  then show ?thesis
    by (simp add: fillna_def with_blanks_def)
qed

lemma excel_sheets_output:
  assumes "list_all (\<lambda>(n, df). empty df \<or> plain_name n \<and> renders_table to_md df) xls"
  shows "excel_sheets to_md xls acc =
           Inr (acc @ concat (map (\<lambda>(n, df).
                  [0x0A, 0x0A, 0x23, 0x23, 0x20, 0xC5D1, 0xC140, 0x20, 0xC2DC, 0xD2B8, 0x3A, 0x20]
                  @ n @ [0x0A, 0x0A] @ table_of to_md df) (non_empty_sheets xls)))"
  using assms
proof (induction xls arbitrary: acc)
  case Nil
  then show ?case by (simp add: non_empty_sheets_def)
next
  case (Cons a xls)
  obtain n df where a: "a = (n, df)" by (cases a)
  from Cons.prems
  have rest: "list_all (\<lambda>(n, df). empty df \<or> plain_name n \<and> renders_table to_md df) xls"
    by simp
  show ?case
  proof (cases "empty df")
    case True
    then show ?thesis using Cons.IH [OF rest] a by (simp add: non_empty_sheets_def)
  next
    case False
    with Cons.prems a have "renders_table to_md df" by simp
    then obtain t where t: "to_md (fillna df) = Inr t" "table_of to_md df = t"
      by (auto simp: renders_table_def table_of_def fillna_with_blanks split: sum.splits)
    then show ?thesis
      using Cons.IH [OF rest] a False by (simp add: non_empty_sheets_def sheet_heading_def)
  qed
qed

lemma blocks_fresh:
  "concat (map (\<lambda>(n, df). [0x0A, 0x0A, 0x23, 0x23, 0x20, 0xC5D1, 0xC140, 0x20, 0xC2DC, 0xD2B8, 0x3A, 0x20]
                  @ n @ [0x0A, 0x0A] @ f df) sheets) = []
   \<or> (\<exists>r. concat (map (\<lambda>(n, df). [0x0A, 0x0A, 0x23, 0x23, 0x20, 0xC5D1, 0xC140, 0x20, 0xC2DC, 0xD2B8, 0x3A, 0x20]
                  @ n @ [0x0A, 0x0A] @ f df) sheets) = 10 # r)"
  by (cases sheets) auto

lemma level2_headings_blocks:
  assumes "list_all (\<lambda>(n, df). plain_name n \<and> level2_headings (f df) = []) sheets"
  shows "level2_headings
           (concat (map (\<lambda>(n, df).
              [0x0A, 0x0A, 0x23, 0x23, 0x20, 0xC5D1, 0xC140, 0x20, 0xC2DC, 0xD2B8, 0x3A, 0x20]
              @ n @ [0x0A, 0x0A] @ f df) sheets))
         = map (\<lambda>(n, df). [0x23, 0x23, 0x20, 0xC5D1, 0xC140, 0x20, 0xC2DC, 0xD2B8, 0x3A, 0x20] @ n) sheets"
  using assms
proof (induction sheets)
  case Nil
  then show ?case by (simp add: level2_headings_Nil)
next
  case (Cons a sheets)
  obtain n df where a: "a = (n, df)" by (cases a)
  from Cons.prems a have p: "plain_name n" and t: "level2_headings (f df) = []"
    and rest: "list_all (\<lambda>(n, df). plain_name n \<and> level2_headings (f df) = []) sheets"
    by simp_all
  show ?case
    using level2_headings_block [OF p t blocks_fresh [of f sheets]] Cons.IH [OF rest] a
    by simp
qed

text \<open>
  Claim C7, as stated: the output has exactly one level-2 heading per non-empty sheet.
  It fails for a sheet whose name has a line break followed by two number signs: the
  name is copied into the heading as it is, and the one sheet gives two level-2
  headings.
\<close>

lemma sales_table:
  "pipe_table (with_blanks sales)
     = ustr ''|item|qty|'' @ [10] @ ustr ''|pen|3|'' @ [10] @ ustr ''|ink||'' @ [10]"
  by (simp add: pipe_table_def pipe_row_def with_blanks_def sales_def ustr_def)

lemma memo_table: "pipe_table (with_blanks memo) = ustr ''|note|'' @ [10] @ ustr ''||'' @ [10]"
  by (simp add: pipe_table_def pipe_row_def with_blanks_def memo_def ustr_def)

lemma sales_renders: "renders_table pipe_to_markdown sales"
  by (simp add: renders_table_def pipe_to_markdown_def sales_table level2_headings_def
      is_level2_heading_def is_eol_def ustr_def)

lemma memo_renders: "renders_table pipe_to_markdown memo"
  by (simp add: renders_table_def pipe_to_markdown_def memo_table level2_headings_def
      is_level2_heading_def is_eol_def ustr_def)

lemma sample_sheets_non_empty:
  "non_empty_sheets [(ustr ''Sales'', sales), (ustr ''Blank'', blank), (ustr ''Memo'', memo)]
     = [(ustr ''Sales'', sales), (ustr ''Memo'', memo)]"
  by (simp add: non_empty_sheets_def empty_def sales_def blank_def memo_def)

theorem convert_excel_to_markdown_headings_counterexample:
  "tricky_workbook (ustr ''/tmp/tmpk3x9_q2a.xlsx'') = Inr [(tricky_name, sales)]
   \<and> non_empty_sheets [(tricky_name, sales)] = [(tricky_name, sales)]
   \<and> map_option level2_headings
        (convert_excel_to_markdown tricky_workbook pipe_to_markdown (ustr ''/tmp/tmpk3x9_q2a.xlsx''))
       = Some [[0x23, 0x23, 0x20, 0xC5D1, 0xC140, 0x20, 0xC2DC, 0xD2B8, 0x3A, 0x20] @ ustr ''Q1'',
               ustr ''## Q2'']"
proof -
  have n: "non_empty_sheets [(tricky_name, sales)] = [(tricky_name, sales)]"
    by (simp add: non_empty_sheets_def empty_def sales_def)
  have c: "convert_excel_to_markdown tricky_workbook pipe_to_markdown (ustr ''/tmp/tmpk3x9_q2a.xlsx'')
             = Some (sheet_heading tricky_name @ pipe_table (with_blanks sales))"
    by (simp add: convert_excel_to_markdown_def tricky_workbook_def pipe_to_markdown_def
        empty_def fillna_with_blanks) (simp add: sales_def)
  have l: "level2_headings (sheet_heading tricky_name @ pipe_table (with_blanks sales))
             = [[0x23, 0x23, 0x20, 0xC5D1, 0xC140, 0x20, 0xC2DC, 0xD2B8, 0x3A, 0x20] @ ustr ''Q1'',
                ustr ''## Q2'']"
    by (simp add: sheet_heading_def tricky_name_def sales_table level2_headings_def
        is_level2_heading_def is_eol_def ustr_def)
  show ?thesis
    using n c l by (simp add: tricky_workbook_def)
qed

text \<open>
  Claim C7, amended: for a workbook that parses, whose non-empty sheets have names
  without a line break and render as tables without a heading line, the output is, in
  workbook order and for the non-empty sheets only, two line feeds, the level-2
  heading that names the sheet, two line feeds, and the table the renderer returns
  for the sheet with the empty string in every missing cell. The level-2 headings of
  the output are exactly those, one per non-empty sheet and none for an empty one.
\<close>

theorem convert_excel_to_markdown_headings:
  assumes "reader file_path = Inr xls"
    and "list_all (\<lambda>(n, df). empty df \<or> plain_name n \<and> renders_table to_md df) xls"
  shows "\<exists>out. convert_excel_to_markdown reader to_md file_path = Some out
           \<and> out = concat (map (\<lambda>(n, df).
                     [0x0A, 0x0A, 0x23, 0x23, 0x20, 0xC5D1, 0xC140, 0x20, 0xC2DC, 0xD2B8, 0x3A, 0x20]
                     @ n @ [0x0A, 0x0A] @ table_of to_md df) (non_empty_sheets xls))
           \<and> level2_headings out
               = map (\<lambda>(n, df). [0x23, 0x23, 0x20, 0xC5D1, 0xC140, 0x20, 0xC2DC, 0xD2B8, 0x3A, 0x20] @ n)
                   (non_empty_sheets xls)
           \<and> length (level2_headings out) = length (non_empty_sheets xls)"
proof -
  let ?out = "concat (map (\<lambda>(n, df).
                     [0x0A, 0x0A, 0x23, 0x23, 0x20, 0xC5D1, 0xC140, 0x20, 0xC2DC, 0xD2B8, 0x3A, 0x20]
                     @ n @ [0x0A, 0x0A] @ table_of to_md df) (non_empty_sheets xls))"
  have c: "convert_excel_to_markdown reader to_md file_path = Some ?out"
    using assms(1) excel_sheets_output [OF assms(2), of "[]"]
    by (simp add: convert_excel_to_markdown_def)
  have "list_all (\<lambda>(n, df). plain_name n \<and> level2_headings (table_of to_md df) = [])
          (non_empty_sheets xls)"
    using assms(2)
    by (auto simp: list_all_iff non_empty_sheets_def renders_table_def table_of_def split: sum.splits)
  then have h: "level2_headings ?out
                  = map (\<lambda>(n, df). [0x23, 0x23, 0x20, 0xC5D1, 0xC140, 0x20, 0xC2DC, 0xD2B8, 0x3A, 0x20] @ n)
                      (non_empty_sheets xls)"
    by (rule level2_headings_blocks)
  show ?thesis
    using c h by simp
qed

theorem convert_excel_to_markdown_headings_witness:
  "sample_workbook (ustr ''/tmp/tmpk3x9_q2a.xlsx'')
     = Inr [(ustr ''Sales'', sales), (ustr ''Blank'', blank), (ustr ''Memo'', memo)]
   \<and> non_empty_sheets [(ustr ''Sales'', sales), (ustr ''Blank'', blank), (ustr ''Memo'', memo)]
       = [(ustr ''Sales'', sales), (ustr ''Memo'', memo)]
   \<and> convert_excel_to_markdown sample_workbook pipe_to_markdown (ustr ''/tmp/tmpk3x9_q2a.xlsx'')
       = Some ([0x0A, 0x0A, 0x23, 0x23, 0x20, 0xC5D1, 0xC140, 0x20, 0xC2DC, 0xD2B8, 0x3A, 0x20]
               @ ustr ''Sales'' @ [0x0A, 0x0A]
               @ ustr ''|item|qty|'' @ [10] @ ustr ''|pen|3|'' @ [10] @ ustr ''|ink||'' @ [10]
               @ [0x0A, 0x0A, 0x23, 0x23, 0x20, 0xC5D1, 0xC140, 0x20, 0xC2DC, 0xD2B8, 0x3A, 0x20]
               @ ustr ''Memo'' @ [0x0A, 0x0A]
               @ ustr ''|note|'' @ [10] @ ustr ''||'' @ [10])
   \<and> map_option level2_headings
        (convert_excel_to_markdown sample_workbook pipe_to_markdown (ustr ''/tmp/tmpk3x9_q2a.xlsx''))
       = Some [[0x23, 0x23, 0x20, 0xC5D1, 0xC140, 0x20, 0xC2DC, 0xD2B8, 0x3A, 0x20] @ ustr ''Sales'',
               [0x23, 0x23, 0x20, 0xC5D1, 0xC140, 0x20, 0xC2DC, 0xD2B8, 0x3A, 0x20] @ ustr ''Memo'']"
proof -
  let ?xls = "[(ustr ''Sales'', sales), (ustr ''Blank'', blank), (ustr ''Memo'', memo)]"
  have h1: "sample_workbook (ustr ''/tmp/tmpk3x9_q2a.xlsx'') = Inr ?xls"
    by (simp add: sample_workbook_def)
  have e: "empty blank"
    by (simp add: empty_def blank_def)
  have p: "plain_name (ustr ''Sales'')" "plain_name (ustr ''Memo'')"
    by (simp_all add: plain_name_def ustr_def)
  have h2: "list_all (\<lambda>(n, df). empty df \<or> plain_name n \<and> renders_table pipe_to_markdown df) ?xls"
    using e p sales_renders memo_renders by simp
  have t: "table_of pipe_to_markdown sales
             = ustr ''|item|qty|'' @ [10] @ ustr ''|pen|3|'' @ [10] @ ustr ''|ink||'' @ [10]"
    "table_of pipe_to_markdown memo = ustr ''|note|'' @ [10] @ ustr ''||'' @ [10]"
    by (simp_all add: table_of_def pipe_to_markdown_def sales_table memo_table)
  from convert_excel_to_markdown_headings [where reader = sample_workbook, OF h1 h2]
  obtain out where
    c: "convert_excel_to_markdown sample_workbook pipe_to_markdown (ustr ''/tmp/tmpk3x9_q2a.xlsx'') = Some out"
    and o: "out = concat (map (\<lambda>(n, df).
                     [0x0A, 0x0A, 0x23, 0x23, 0x20, 0xC5D1, 0xC140, 0x20, 0xC2DC, 0xD2B8, 0x3A, 0x20]
                     @ n @ [0x0A, 0x0A] @ table_of pipe_to_markdown df) (non_empty_sheets ?xls))"
    and l: "level2_headings out
               = map (\<lambda>(n, df). [0x23, 0x23, 0x20, 0xC5D1, 0xC140, 0x20, 0xC2DC, 0xD2B8, 0x3A, 0x20] @ n)
                   (non_empty_sheets ?xls)"
    by blast
  have o': "out = [0x0A, 0x0A, 0x23, 0x23, 0x20, 0xC5D1, 0xC140, 0x20, 0xC2DC, 0xD2B8, 0x3A, 0x20]
               @ ustr ''Sales'' @ [0x0A, 0x0A]
               @ ustr ''|item|qty|'' @ [10] @ ustr ''|pen|3|'' @ [10] @ ustr ''|ink||'' @ [10]
               @ [0x0A, 0x0A, 0x23, 0x23, 0x20, 0xC5D1, 0xC140, 0x20, 0xC2DC, 0xD2B8, 0x3A, 0x20]
               @ ustr ''Memo'' @ [0x0A, 0x0A]
               @ ustr ''|note|'' @ [10] @ ustr ''||'' @ [10]"
    using o by (simp add: sample_sheets_non_empty t)
  have l': "level2_headings out
              = [[0x23, 0x23, 0x20, 0xC5D1, 0xC140, 0x20, 0xC2DC, 0xD2B8, 0x3A, 0x20] @ ustr ''Sales'',
                 [0x23, 0x23, 0x20, 0xC5D1, 0xC140, 0x20, 0xC2DC, 0xD2B8, 0x3A, 0x20] @ ustr ''Memo'']"
    using l by (simp add: sample_sheets_non_empty)
  show ?thesis
    using h1 sample_sheets_non_empty c l' o' [symmetric] by simp
qed

section \<open>Ingestion: cleanup of the staged files\<close>

lemma remove_if_exists_eq: "remove_if_exists p fs = fs(p := None)"
  by (auto simp: remove_if_exists_def)

lemma replace_suffix_nonempty:
  assumes "new \<noteq> []"
  shows "replace (pre @ suf) suf new \<noteq> []"
proof (cases "suf = []")
  case True
  with assms show ?thesis by (simp add: replace_def)
next
  case False
  then have "replace (pre @ suf) suf new = replace_from (pre @ suf) suf new"
    by (simp add: replace_def)
  also have "\<dots> \<noteq> []"
    using False assms by (subst replace_from.simps) simp
  finally show ?thesis .
qed

lemma md_path_of_nonempty:
  "md_path_of (pre @ suf) suf conv = Some p \<Longrightarrow> p \<noteq> []"
  using replace_suffix_nonempty [of "ustr ''.md''" pre suf]
  by (auto simp: md_path_of_def ustr_def split: option.splits if_splits)

text \<open>
  Claim C3. Whatever the call returns (success, or failure of the conversion, the
  upload, the import or the wait), the staged upload no longer exists afterwards, and
  neither does the markdown file when one was written.
\<close>

theorem staged_files_removed:
  assumes "upload_and_import_file env store_name uploaded preprocess_method vision_model w = (r, w')"
  shows "disk w' (staged_path env uploaded) = None
         \<and> (\<forall>p. staged_md_path env uploaded preprocess_method vision_model = Some p
                \<longrightarrow> disk w' p = None)"
proof -
  define suffix where "suffix = lower (splitext_ext (name uploaded))"
  define tmp_path where "tmp_path = tmp_prefix env @ suffix"
  define conv where "conv = fst (convert_step env (name uploaded) suffix tmp_path preprocess_method vision_model)"
  define shown where "shown = snd (convert_step env (name uploaded) suffix tmp_path preprocess_method vision_model)"
  define w0 where "w0 = w\<lparr>disk := (disk w)(tmp_path \<mapsto> getvalue uploaded)\<rparr>"
  define w1 where "w1 = snd (upload_steps env store_name tmp_path suffix conv shown w0)"
  define fs1 where "fs1 = (disk w1)(tmp_path := None)"
  have w': "disk w' = (case md_path_of tmp_path suffix conv of
                         None \<Rightarrow> fs1
                       | Some p \<Rightarrow> if p \<noteq> [] then fs1(p := None) else fs1)"
    using assms
    by (auto simp: upload_and_import_file_def Let_def remove_if_exists_eq suffix_def tmp_path_def
        conv_def shown_def w0_def w1_def fs1_def split: prod.splits option.splits)
  have tmp: "disk w' tmp_path = None"
    by (simp add: w' fs1_def split: option.splits)
  have md: "disk w' p = None" if "md_path_of tmp_path suffix conv = Some p" for p
  proof -
    from that have "p \<noteq> []"
      unfolding tmp_path_def by (rule md_path_of_nonempty)
    with that show ?thesis by (simp add: w')
  qed
  show ?thesis
    using tmp md
    by (simp add: staged_path_def staged_md_path_def Let_def suffix_def tmp_path_def conv_def)
qed

text \<open>Facts about the scenarios, by evaluation.\<close>

lemma book_suffix: "lower (splitext_ext (name book)) = ustr ''.xlsx''"
  by (simp add: book_def splitext_ext_def lower_def ustr_def)

lemma scan_suffix: "lower (splitext_ext (name scan)) = ustr ''.pdf''"
  by (simp add: scan_def splitext_ext_def lower_def ustr_def)

lemma xlsx_is_excel: "ustr ''.xlsx'' \<in> set excel_suffixes"
  by (simp add: excel_suffixes_def)

lemma book_md_path:
  "replace (ustr ''/tmp/tmpk3x9_q2a.xlsx'') (ustr ''.xlsx'') (ustr ''.md'') = ustr ''/tmp/tmpk3x9_q2a.md''"
  by (simp add: replace_def replace_from.simps ustr_def)

lemma sample_workbook_markdown:
  "convert_excel_to_markdown sample_workbook pipe_to_markdown p
     = Some (sheet_heading (ustr ''Sales'') @ pipe_table (fillna sales)
             @ sheet_heading (ustr ''Memo'') @ pipe_table (fillna memo))"
  by (simp add: convert_excel_to_markdown_def sample_workbook_def pipe_to_markdown_def
      empty_def sales_def blank_def memo_def fillna_def)

lemma stalled_wait:
  "wait_for_operation never_done pending 300 2 = (Inl (TimeoutError timeout_message), 302)"
  by (simp add: wait_for_operation_def wait_loop.simps never_done_def pending_def)

lemma stalled_book_convert:
  "convert_step stalled_env (name book) (ustr ''.xlsx'') (ustr ''/tmp/tmpk3x9_q2a.xlsx'')
     fast_method (ustr ''gemini-2.0-flash'')
   = (Some (sheet_heading (ustr ''Sales'') @ pipe_table (fillna sales)
             @ sheet_heading (ustr ''Memo'') @ pipe_table (fillna memo)),
      name book @ excel_tag)"
  using xlsx_is_excel by (simp add: convert_step_def stalled_env_def sample_workbook_markdown)

lemma stalled_book_md:
  "staged_md_path stalled_env book fast_method (ustr ''gemini-2.0-flash'')
     = Some (ustr ''/tmp/tmpk3x9_q2a.md'')"
proof -
  have p: "tmp_prefix stalled_env @ ustr ''.xlsx'' = ustr ''/tmp/tmpk3x9_q2a.xlsx''"
    by (simp add: stalled_env_def ustr_def)
  show ?thesis
    by (simp add: staged_md_path_def Let_def book_suffix p stalled_book_convert md_path_of_def
        sheet_heading_def book_md_path)
qed

lemma stalled_book_path:
  "staged_path stalled_env book = ustr ''/tmp/tmpk3x9_q2a.xlsx''"
  by (simp add: staged_path_def book_suffix) (simp add: stalled_env_def ustr_def)

lemma stalled_book_result:
  "fst (upload_and_import_file stalled_env store_a book fast_method (ustr ''gemini-2.0-flash'') world0)
     = (False, timeout_message)"
proof -
  have p: "tmp_prefix stalled_env @ ustr ''.xlsx'' = ustr ''/tmp/tmpk3x9_q2a.xlsx''"
    by (simp add: stalled_env_def ustr_def)
  have u: "files_upload stalled_env a b c = Inr (ustr ''files/abc'')" for a b c
    by (simp add: stalled_env_def)
  have i: "import_file stalled_env a b = Inr pending" for a b
    by (simp add: stalled_env_def)
  have g: "operations_get stalled_env = never_done"
    by (simp add: stalled_env_def)
  have c: "clock world0 = 0"
    by (simp add: world0_def)
  show ?thesis
    by (simp add: upload_and_import_file_def Let_def book_suffix p stalled_book_convert
        upload_steps_def md_path_of_def sheet_heading_def book_md_path u i g c stalled_wait)
qed

theorem staged_files_removed_witness:
  "fst (upload_and_import_file stalled_env store_a book fast_method (ustr ''gemini-2.0-flash'') world0)
     = (False, timeout_message)
   \<and> staged_path stalled_env book = ustr ''/tmp/tmpk3x9_q2a.xlsx''
   \<and> staged_md_path stalled_env book fast_method (ustr ''gemini-2.0-flash'')
       = Some (ustr ''/tmp/tmpk3x9_q2a.md'')
   \<and> disk (snd (upload_and_import_file stalled_env store_a book fast_method
                  (ustr ''gemini-2.0-flash'') world0)) (ustr ''/tmp/tmpk3x9_q2a.xlsx'') = None
   \<and> disk (snd (upload_and_import_file stalled_env store_a book fast_method
                  (ustr ''gemini-2.0-flash'') world0)) (ustr ''/tmp/tmpk3x9_q2a.md'') = None"
  using staged_files_removed [OF surjective_pairing, of stalled_env store_a book fast_method
      "ustr ''gemini-2.0-flash''" world0]
    stalled_book_result stalled_book_path stalled_book_md
  by simp

text \<open>No other local file is created, changed or removed by the call.\<close>

lemma upload_steps_disk:
  "disk (snd (upload_steps env store_name tmp_path suffix conv shown w)) q =
     (if md_path_of tmp_path suffix conv = Some q then conv else disk w q)"
  by (auto simp: upload_steps_def Let_def md_path_of_def split: option.splits sum.splits prod.splits if_splits)

lemma other_files_untouched:
  assumes "q \<noteq> staged_path env uploaded"
    and "staged_md_path env uploaded preprocess_method vision_model \<noteq> Some q"
  shows "disk (snd (upload_and_import_file env store_name uploaded preprocess_method vision_model w)) q
           = disk w q"
  using assms
  by (auto simp: upload_and_import_file_def Let_def remove_if_exists_eq staged_path_def
      staged_md_path_def upload_steps_disk split_beta split: option.splits)

section \<open>Ingestion: a converter that fails\<close>

lemma corrupt_book_convert:
  "convert_step corrupt_env (name book) (ustr ''.xlsx'') (ustr ''/tmp/tmpk3x9_q2a.xlsx'')
     fast_method (ustr ''gemini-2.0-flash'')
   = (None, name book @ excel_tag)"
  using xlsx_is_excel
  by (simp add: convert_step_def corrupt_env_def convert_excel_to_markdown_def)

text \<open>
  Claim C1, as stated: when the selected converter fails, the call returns a failure
  result. It fails: the workbook cannot be parsed, \<open>convert_excel_to_markdown\<close>
  gives \<open>None\<close>, the staged original is uploaded instead, and the call returns
  \<open>True\<close> with the display name that announces the table conversion.
\<close>

theorem failed_conversion_reported_as_success_counterexample:
  "convert_excel_to_markdown (read_excel corrupt_env) (to_markdown corrupt_env)
     (staged_path corrupt_env book) = None
   \<and> fst (upload_and_import_file corrupt_env store_a book fast_method (ustr ''gemini-2.0-flash'') world0)
       = (True, ustr ''Book.XLSX'' @ excel_tag)"
proof -
  have p: "tmp_prefix corrupt_env @ ustr ''.xlsx'' = ustr ''/tmp/tmpk3x9_q2a.xlsx''"
    by (simp add: corrupt_env_def ustr_def)
  have u: "files_upload corrupt_env a b c = Inr (ustr ''files/abc'')" for a b c
    by (simp add: corrupt_env_def)
  have i: "import_file corrupt_env a b = Inr finished" for a b
    by (simp add: corrupt_env_def)
  have n: "name book = ustr ''Book.XLSX''"
    by (simp add: book_def)
  have c: "convert_excel_to_markdown (read_excel corrupt_env) (to_markdown corrupt_env)
             (staged_path corrupt_env book) = None"
    by (simp add: convert_excel_to_markdown_def corrupt_env_def)
  have r: "fst (upload_and_import_file corrupt_env store_a book fast_method (ustr ''gemini-2.0-flash'') world0)
             = (True, name book @ excel_tag)"
    by (simp add: upload_and_import_file_def Let_def book_suffix p corrupt_book_convert
        upload_steps_def md_path_of_def u i wait_for_operation_def wait_loop.simps finished_def)
  show ?thesis
    using c r n by simp
qed

text \<open>
  Claim C1, amended: when the selected converter gives \<open>None\<close>, the call does not
  raise; it uploads the staged original with the MIME type
  \<open>application/octet-stream\<close> under the annotated display name, and returns
  \<open>True\<close> with that name when upload, import and wait succeed, and \<open>False\<close> with
  the text of the exception when one of them raises.
\<close>

theorem failed_conversion_falls_back_to_raw_upload:
  assumes "suffix = lower (splitext_ext (name uploaded))"
    and "tmp_path = tmp_prefix env @ suffix"
    and "suffix \<in> set (ustr ''.pdf'' # excel_suffixes)"
    and "convert_step env (name uploaded) suffix tmp_path preprocess_method vision_model
           = (None, display_name)"
  shows "fst (upload_and_import_file env store_name uploaded preprocess_method vision_model w) =
           (case files_upload env tmp_path (ustr ''application/octet-stream'') display_name of
              Inl e \<Rightarrow> (False, str_exn e)
            | Inr file_obj_name \<Rightarrow>
                (case import_file env store_name file_obj_name of
                   Inl e \<Rightarrow> (False, str_exn e)
                 | Inr import_operation \<Rightarrow>
                     (case fst (wait_for_operation (operations_get env) import_operation 300
                                  (clock w + 2)) of
                        Inl e \<Rightarrow> (False, str_exn e)
                      | Inr operation \<Rightarrow> (True, display_name))))"
  using assms(4)
  unfolding assms(1,2)
  by (simp add: upload_and_import_file_def Let_def upload_steps_def md_path_of_def
      split: sum.splits prod.splits)

theorem failed_conversion_falls_back_to_raw_upload_witness:
  "lower (splitext_ext (name scan)) = ustr ''.pdf''
   \<and> convert_step corrupt_env (name scan) (ustr ''.pdf'') (tmp_prefix corrupt_env @ ustr ''.pdf'')
        docling_method (ustr ''gemini-2.0-flash'')
       = (None, name scan @ markdown_tag)
   \<and> fst (upload_and_import_file corrupt_env store_a scan docling_method (ustr ''gemini-2.0-flash'') world0)
       = (True, ustr ''scan.pdf'' @ markdown_tag)"
proof -
  have h1: "ustr ''.pdf'' = lower (splitext_ext (name scan))"
    by (simp add: scan_suffix)
  have h2: "tmp_prefix corrupt_env @ ustr ''.pdf'' = tmp_prefix corrupt_env @ ustr ''.pdf''"
    by simp
  have h3: "ustr ''.pdf'' \<in> set (ustr ''.pdf'' # excel_suffixes)"
    by simp
  have ns: "\<not> is_scanned_pdf (fitz_open corrupt_env) q" for q
    by (simp add: is_scanned_pdf_def corrupt_env_def corrupt_open_def)
  have ne: "ustr ''.pdf'' \<notin> set excel_suffixes"
    by (simp add: excel_suffixes_def ustr_def)
  have h4: "convert_step corrupt_env (name scan) (ustr ''.pdf'') (tmp_prefix corrupt_env @ ustr ''.pdf'')
              docling_method (ustr ''gemini-2.0-flash'')
            = (None, name scan @ markdown_tag)"
    using ne by (simp add: convert_step_def ns convert_with_docling_def) (simp add: corrupt_env_def)
  have u: "files_upload corrupt_env a b c = Inr (ustr ''files/abc'')" for a b c
    by (simp add: corrupt_env_def)
  have i: "import_file corrupt_env a b = Inr finished" for a b
    by (simp add: corrupt_env_def)
  have d: "fst (wait_for_operation g finished 300 t) = Inr finished" for g t
    by (simp add: wait_for_operation_def wait_loop.simps finished_def)
  have n: "name scan = ustr ''scan.pdf''"
    by (simp add: scan_def)
  show ?thesis
    using h1 h4 n
      failed_conversion_falls_back_to_raw_upload [OF h1 h2 h3 h4, of store_a world0]
    by (simp add: u i d)
qed

end
